theory Spec2Isabelle
  imports Main "HOL-Library.Sublist" "HOL-Library.List_Lexorder" "HOL-Library.Char_ord"
begin

section \<open>Python values used by the scenario editor\<close>

text \<open>
  A Python \<open>str\<close> is a \<open>string\<close>: one \<open>char\<close> per code point, for the code points
  below 256. The platform is POSIX: \<open>os.path\<close> is \<open>posixpath\<close> and \<open>Path\<close> is
  \<open>PosixPath\<close>, the only separator is the forward slash.

  Exceptions are values of \<open>pyerr\<close>, each carrying the text that \<open>str(e)\<close> gives.
  \<open>FileNotFoundError\<close> and \<open>PermissionError\<close> are subclasses of \<open>OSError\<close>,
  \<open>UnicodeDecodeError\<close> is a subclass of \<open>ValueError\<close>; \<open>PathTraversalError\<close> and
  \<open>FileSizeError\<close> derive from \<open>SecurityError\<close>, which derives from \<open>Exception\<close> only.
  \<open>EditorError cls message user_message\<close> is an instance of \<open>EmpyrionEditorError\<close>
  or of one of its subclasses in \<open>utils/exceptions.py\<close>, with its technical message and
  its \<open>user_message\<close> attribute.
\<close>

datatype editor_error_class =
    ValidationError_class
  | InvalidScenarioError_class
  | ScenarioNotFoundError_class
  | ScenarioLoadError_class
  | YAMLParsingError_class
  | FileAccessError_class
  | ConfigurationError_class
  | ResourceLimitError_class
  | ScenarioError_class
  | FileParsingError_class
  | EmpyrionEditorError_class

datatype pyerr =
    ValueError string
  | UnicodeDecodeError string
  | PathTraversalError string
  | FileSizeError string
  | FileNotFoundError string
  | PermissionError string
  | OSError string
  | IndexError string
  | KeyError string
  | TypeError string
  | YAMLError string
  | RuntimeError string
  | EditorError editor_error_class string string

fun err_str :: "pyerr \<Rightarrow> string" where
  "err_str (ValueError m) = m"
| "err_str (UnicodeDecodeError m) = m"
| "err_str (PathTraversalError m) = m"
| "err_str (FileSizeError m) = m"
| "err_str (FileNotFoundError m) = m"
| "err_str (PermissionError m) = m"
| "err_str (OSError m) = m"
| "err_str (IndexError m) = m"
| "err_str (KeyError m) = m"
| "err_str (TypeError m) = m"
| "err_str (YAMLError m) = m"
| "err_str (RuntimeError m) = m"
| "err_str (EditorError cls m um) = m"

fun is_OSError :: "pyerr \<Rightarrow> bool" where
  "is_OSError (OSError m) = True"
| "is_OSError (FileNotFoundError m) = True"
| "is_OSError (PermissionError m) = True"
| "is_OSError e = False"

fun is_ValueError :: "pyerr \<Rightarrow> bool" where
  "is_ValueError (ValueError m) = True"
| "is_ValueError (UnicodeDecodeError m) = True"
| "is_ValueError e = False"

text \<open>
  An argument that the caller may pass where a \<open>str\<close> is expected: \<open>None\<close>, a
  \<open>str\<close>, or some other object, of which the outcomes of \<open>bool(obj)\<close> and of
  \<open>repr(obj)\<close> matter, in this order (each may raise).
\<close>

datatype pyval = PyNone | PyStr string | PyObj "pyerr + bool" "pyerr + string"

text \<open>
  The values \<open>yaml.safe_load\<close> builds. \<open>YMap\<close> is a \<open>dict\<close> in insertion order,
  \<open>YSet\<close> a \<open>set\<close>; \<open>YOther b\<close> is any other scalar (a float, a timestamp, bytes)
  with truth value \<open>b\<close>: \<open>in\<close>, iteration and indexing by a \<open>str\<close> raise
  \<open>TypeError\<close> on it.
\<close>

datatype yaml =
    YNull
  | YBool bool
  | YInt int
  | YStr string
  | YSeq "yaml list"
  | YSet "yaml list"
  | YMap "(yaml \<times> yaml) list"
  | YOther bool

subsection \<open>Methods of \<open>str\<close>\<close>

definition startswith :: "string \<Rightarrow> string \<Rightarrow> bool" where
  "startswith s p = prefix p s"

definition endswith :: "string \<Rightarrow> string \<Rightarrow> bool" where
  "endswith s p = prefix (rev p) (rev s)"

text \<open>\<open>str_in p s\<close> is \<open>p in s\<close>.\<close>

primrec str_in :: "string \<Rightarrow> string \<Rightarrow> bool" where
  "str_in p [] = (p = [])"
| "str_in p (c # cs) = (prefix p (c # cs) \<or> str_in p cs)"

text \<open>\<open>split_on sep s\<close> is \<open>s.split(sep)\<close> for a separator of one character.\<close>

fun split_on :: "char \<Rightarrow> string \<Rightarrow> string list" where
  "split_on sep [] = [[]]"
| "split_on sep (c # cs) =
     (if c = sep then [] # split_on sep cs
      else (case split_on sep cs of [] \<Rightarrow> [[c]] | w # ws \<Rightarrow> (c # w) # ws))"

text \<open>\<open>str_join sep xs\<close> is \<open>sep.join(xs)\<close>.\<close>

fun str_join :: "string \<Rightarrow> string list \<Rightarrow> string" where
  "str_join sep [] = []"
| "str_join sep [x] = x"
| "str_join sep (x # y # ys) = x @ sep @ str_join sep (y # ys)"

definition rstrip_char :: "char \<Rightarrow> string \<Rightarrow> string" where
  "rstrip_char c s = rev (dropWhile (\<lambda>x. x = c) (rev s))"

text \<open>\<open>str.isspace\<close> on the code points below 256, and \<open>str.strip()\<close>.\<close>

definition isspace :: "char \<Rightarrow> bool" where
  "isspace c = ((of_char c :: nat) \<in> {9, 10, 11, 12, 13, 28, 29, 30, 31, 32, 133, 160})"

definition strip :: "string \<Rightarrow> string" where
  "strip s = rev (dropWhile isspace (rev (dropWhile isspace s)))"

text \<open>
  \<open>str.lower()\<close> on the code points below 256: the ASCII capitals and the Latin-1
  capitals 192 to 222 (215, the multiplication sign, apart) move up by 32.
\<close>

definition lower_char :: "char \<Rightarrow> char" where
  "lower_char c =
     (let n = (of_char c :: nat)
      in if (65 \<le> n \<and> n \<le> 90) \<or> (192 \<le> n \<and> n \<le> 222 \<and> n \<noteq> 215) then char_of (n + 32) else c)"

definition lower :: "string \<Rightarrow> string" where
  "lower s = map lower_char s"

text \<open>\<open>s.rfind(c)\<close>: the last index of \<open>c\<close>, or \<open>-1\<close>.\<close>

fun rfind_from :: "char \<Rightarrow> string \<Rightarrow> nat \<Rightarrow> int \<Rightarrow> int" where
  "rfind_from c [] i found = found"
| "rfind_from c (x # xs) i found = rfind_from c xs (Suc i) (if x = c then int i else found)"

definition rfind :: "string \<Rightarrow> char \<Rightarrow> int" where
  "rfind s c = rfind_from c s 0 (- 1)"

text \<open>\<open>str(n)\<close> for an \<open>int\<close>.\<close>

fun str_nat :: "nat \<Rightarrow> string" where
  "str_nat n =
     (if n < 10 then [''0123456789'' ! n]
      else str_nat (n div 10) @ [''0123456789'' ! (n mod 10)])"

declare str_nat.simps [simp del]

definition str_int :: "int \<Rightarrow> string" where
  "str_int i = (if i < 0 then CHR ''-'' # str_nat (nat (- i)) else str_nat (nat i))"

section \<open>The process environment and the file system\<close>

text \<open>
  What the operating system answers at the moment of the call. \<open>getcwd\<close> raises
  \<open>FileNotFoundError\<close> when the working directory is gone. \<open>environ_HOME\<close> is
  \<open>os.environ['HOME']\<close>, \<open>pw_dir_uid\<close> the home directory of the password entry of the
  process's user and \<open>pw_dir_name\<close> that of a named user (\<open>None\<close> stands for
  \<open>KeyError\<close>). \<open>open_read p n\<close> is \<open>open(p, 'r', encoding='utf-8')\<close> followed by
  \<open>read(n)\<close>, \<open>read()\<close> when \<open>n\<close> is \<open>None\<close>. \<open>safe_load_file p\<close> is
  \<open>yaml.safe_load\<close> on the file opened in the same way. \<open>os_walk top\<close> lists the
  triples \<open>(root, dirs, files)\<close> that \<open>os.walk(top)\<close> yields.
\<close>

record os_env =
  getcwd :: "pyerr + string"
  environ_HOME :: "string option"
  pw_dir_uid :: "string option"
  pw_dir_name :: "string \<Rightarrow> string option"
  path_exists :: "string \<Rightarrow> bool"
  path_isdir :: "string \<Rightarrow> bool"
  path_isfile :: "string \<Rightarrow> bool"
  access_R_OK :: "string \<Rightarrow> bool"
  getsize :: "string \<Rightarrow> pyerr + int"
  open_read :: "string \<Rightarrow> nat option \<Rightarrow> pyerr + string"
  safe_load_file :: "string \<Rightarrow> pyerr + yaml"
  os_walk :: "string \<Rightarrow> (string \<times> string list \<times> string list) list"

section \<open>\<open>posixpath\<close> and \<open>pathlib\<close>\<close>

text \<open>\<open>path_join a b\<close> is \<open>os.path.join(a, b)\<close>.\<close>

definition path_join :: "string \<Rightarrow> string \<Rightarrow> string" where
  "path_join a b =
     (if startswith b ''/'' then b
      else if a = [] \<or> endswith a ''/'' then a @ b
      else a @ ''/'' @ b)"

text \<open>The loop of \<open>os.path.normpath\<close> over the components of the path.\<close>

fun normpath_comps :: "nat \<Rightarrow> string list \<Rightarrow> string list \<Rightarrow> string list" where
  "normpath_comps initial_slashes new_comps [] = new_comps"
| "normpath_comps initial_slashes new_comps (cmp # comps) =
     (if cmp = [] \<or> cmp = ''.'' then normpath_comps initial_slashes new_comps comps
      else if cmp \<noteq> ''..'' \<or> (initial_slashes = 0 \<and> new_comps = [])
                \<or> (new_comps \<noteq> [] \<and> last new_comps = ''..'')
      then normpath_comps initial_slashes (new_comps @ [cmp]) comps
      else if new_comps \<noteq> [] then normpath_comps initial_slashes (butlast new_comps) comps
      else normpath_comps initial_slashes new_comps comps)"

definition normpath :: "string \<Rightarrow> string" where
  "normpath path =
     (if path = [] then ''.''
      else
        let initial_slashes =
              (if startswith path ''/''
               then (if startswith path ''//'' \<and> \<not> startswith path ''///'' then 2 else 1)
               else (0::nat));
            comps = normpath_comps initial_slashes [] (split_on CHR ''/'' path);
            joined = replicate initial_slashes CHR ''/'' @ str_join ''/'' comps
        in if joined = [] then ''.'' else joined)"

definition abspath :: "os_env \<Rightarrow> string \<Rightarrow> pyerr + string" where
  "abspath env path =
     (if \<not> startswith path ''/''
      then (case getcwd env of
              Inl e \<Rightarrow> Inl e
            | Inr cwd \<Rightarrow> Inr (normpath (path_join cwd path)))
      else Inr (normpath path))"

text \<open>
  \<open>os.path.expanduser\<close>. The path starts with a tilde, so \<open>path.find('/', 1)\<close> is the
  length of the part before the first slash, and the length of the path when there is
  no slash.
\<close>

definition expanduser :: "os_env \<Rightarrow> string \<Rightarrow> string" where
  "expanduser env path =
     (if \<not> startswith path ''~'' then path
      else
        let i = length (takeWhile (\<lambda>c. c \<noteq> CHR ''/'') path);
            userhome =
              (if i = 1
               then (case environ_HOME env of None \<Rightarrow> pw_dir_uid env | Some h \<Rightarrow> Some h)
               else pw_dir_name env (take (i - 1) (drop 1 path)))
        in case userhome of
             None \<Rightarrow> path
           | Some h \<Rightarrow>
               (let r = rstrip_char CHR ''/'' h @ drop i path
                in if r = [] then ''/'' else r))"

text \<open>
  \<open>os.path.splitext\<close>: the loop skips the dots that start the last component.
\<close>

function has_name_before_dot :: "string \<Rightarrow> nat \<Rightarrow> nat \<Rightarrow> bool" where
  "has_name_before_dot p filenameIndex dotIndex =
     (if filenameIndex < dotIndex
      then (if p ! filenameIndex \<noteq> CHR ''.'' then True
            else has_name_before_dot p (Suc filenameIndex) dotIndex)
      else False)"
  by pat_completeness auto
termination
  by (relation "measure (\<lambda>(p, i, d). d - i)") auto

declare has_name_before_dot.simps [simp del]

definition splitext :: "string \<Rightarrow> string \<times> string" where
  "splitext p =
     (let sepIndex = rfind p CHR ''/'';
          dotIndex = rfind p CHR ''.''
      in if dotIndex > sepIndex \<and> has_name_before_dot p (nat (sepIndex + 1)) (nat dotIndex)
         then (take (nat dotIndex) p, drop (nat dotIndex) p)
         else (p, []))"

text \<open>\<open>os.path.basename\<close>.\<close>

definition basename :: "string \<Rightarrow> string" where
  "basename p = drop (nat (rfind p CHR ''/'' + 1)) p"

text \<open>
  \<open>os.path.commonpath([p1, p2])\<close>. The components of both paths are compared from
  the front, the smaller list (\<open>min\<close>) against the larger (\<open>max\<close>); reading the larger
  list beyond its end would raise \<open>IndexError\<close>.
\<close>

definition path_components :: "string \<Rightarrow> string list" where
  "path_components path = filter (\<lambda>c. c \<noteq> [] \<and> c \<noteq> ''.'') (split_on CHR ''/'' path)"

fun common_loop :: "string list \<Rightarrow> string list \<Rightarrow> pyerr + string list" where
  "common_loop [] s2 = Inr []"
| "common_loop (c # s1) [] = Inl (IndexError ''list index out of range'')"
| "common_loop (c # s1) (d # s2) =
     (if c \<noteq> d then Inr []
      else (case common_loop s1 s2 of
              Inl e \<Rightarrow> Inl e
            | Inr common \<Rightarrow> Inr (c # common)))"

definition commonpath :: "string \<Rightarrow> string \<Rightarrow> pyerr + string" where
  "commonpath p1 p2 =
     (if startswith p1 ''/'' \<noteq> startswith p2 ''/''
      then Inl (ValueError (''Can'' @ [CHR 0x27] @ ''t mix absolute and relative paths''))
      else
        let sp1 = path_components p1;
            sp2 = path_components p2;
            s1 = (if sp2 < sp1 then sp2 else sp1);
            s2 = (if sp1 < sp2 then sp2 else sp1)
        in case common_loop s1 s2 of
             Inl e \<Rightarrow> Inl e
           | Inr common \<Rightarrow>
               Inr ((if startswith p1 ''/'' then ''/'' else []) @ str_join ''/'' common))"

text \<open>
  \<open>Path(p).parts\<close>: the root (\<open>//\<close> for exactly two leading slashes, \<open>/\<close> otherwise)
  and then the components, without the empty ones and without the single dots.
\<close>

definition splitroot :: "string \<Rightarrow> string \<times> string" where
  "splitroot part =
     (if startswith part ''/''
      then (let stripped = dropWhile (\<lambda>c. c = CHR ''/'') part
            in if length part - length stripped = 2 then (''//'', stripped)
               else (''/'', stripped))
      else ([], part))"

definition path_parts :: "string \<Rightarrow> string list" where
  "path_parts p =
     (case splitroot p of
        (root, rel) \<Rightarrow>
          (if root = [] then [] else [root])
          @ filter (\<lambda>x. x \<noteq> [] \<and> x \<noteq> ''.'') (split_on CHR ''/'' rel))"

section \<open>\<open>utils/security.py\<close>: \<open>PathValidator\<close>\<close>

record path_validator =
  allowed_root :: "string option"
  max_file_size :: int
  max_depth :: int

definition DEFAULT_MAX_FILE_SIZE :: int where
  "DEFAULT_MAX_FILE_SIZE = 10 * 1024 * 1024"

definition DEFAULT_MAX_DIRECTORY_DEPTH :: int where
  "DEFAULT_MAX_DIRECTORY_DEPTH = 10"

definition DANGEROUS_COMPONENTS :: "string set" where
  "DANGEROUS_COMPONENTS = {''.'', ''..'', ''~'', ''$''}"

definition BLOCKED_EXTENSIONS :: "string set" where
  "BLOCKED_EXTENSIONS = {''.exe'', ''.bat'', ''.cmd'', ''.ps1'', ''.sh'', ''.py'', ''.js''}"

text \<open>
  \<open>__init__\<close>: the root is made absolute when one is given (an empty string counts as
  none); \<open>os.path.abspath\<close> may raise when the working directory is gone.
\<close>

definition PathValidator_init ::
  "os_env \<Rightarrow> string option \<Rightarrow> int \<Rightarrow> int \<Rightarrow> pyerr + path_validator" where
  "PathValidator_init env root_arg mfs md =
     (case root_arg of
        None \<Rightarrow> Inr \<lparr>allowed_root = None, max_file_size = mfs, max_depth = md\<rparr>
      | Some r \<Rightarrow>
          if r = [] then Inr \<lparr>allowed_root = None, max_file_size = mfs, max_depth = md\<rparr>
          else (case abspath env r of
                  Inl e \<Rightarrow> Inl e
                | Inr a \<Rightarrow> Inr \<lparr>allowed_root = Some a, max_file_size = mfs, max_depth = md\<rparr>))"

text \<open>The truth value of \<open>self.allowed_root\<close>.\<close>

definition root_configured :: "path_validator \<Rightarrow> bool" where
  "root_configured self = (case allowed_root self of None \<Rightarrow> False | Some r \<Rightarrow> r \<noteq> [])"

text \<open>
  \<open>_sanitize_path_string\<close>. \<open>replace_double_slash\<close> is
  \<open>sanitized.replace('//', '/')\<close>, which replaces the occurrences from the left without
  overlap; \<open>collapse_slashes\<close> is the \<open>while\<close> loop around it.
\<close>

fun replace_double_slash :: "string \<Rightarrow> string" where
  "replace_double_slash (a # b # cs) =
     (if a = CHR ''/'' \<and> b = CHR ''/'' then CHR ''/'' # replace_double_slash cs
      else a # replace_double_slash (b # cs))"
| "replace_double_slash cs = cs"

lemma length_replace_double_slash_le: "length (replace_double_slash s) \<le> length s"
  by (induction s rule: replace_double_slash.induct) auto

lemma length_replace_double_slash_less:
  "str_in ''//'' s \<Longrightarrow> length (replace_double_slash s) < length s"
proof (induction s rule: replace_double_slash.induct)
  case (1 a b cs)
  show ?case
  proof (cases "a = CHR ''/'' \<and> b = CHR ''/''")
    case True
    then show ?thesis
      using length_replace_double_slash_le [of cs] by simp
  next
    case False
    with 1 show ?thesis by auto
  qed
qed auto

function collapse_slashes :: "string \<Rightarrow> string" where
  "collapse_slashes s =
     (if str_in ''//'' s then collapse_slashes (replace_double_slash s) else s)"
  by pat_completeness auto
termination
  by (relation "measure length") (auto simp: length_replace_double_slash_less)

declare collapse_slashes.simps [simp del]

definition sanitize_path_string :: "string \<Rightarrow> string" where
  "sanitize_path_string path =
     (let sanitized = filter (\<lambda>char. 32 \<le> (of_char char :: nat)) path;
          sanitized = collapse_slashes sanitized
      in if 1 < length sanitized \<and> endswith sanitized ''/''
         then rstrip_char CHR ''/'' sanitized
         else sanitized)"

text \<open>
  \<open>_check_path_traversal\<close>. The four patterns are \<open>../\<close>, \<open>..\\<close>, \<open>../\<close> again and
  \<open>..\\\<close> (the backslash is the character 0x5C).
\<close>

definition dangerous_patterns :: "string list" where
  "dangerous_patterns =
     [''../'', ''..'' @ [CHR 0x5C], ''../'', ''..'' @ [CHR 0x5C, CHR 0x5C]]"

fun check_patterns :: "string list \<Rightarrow> string \<Rightarrow> pyerr + unit" where
  "check_patterns [] original_path = Inr ()"
| "check_patterns (pattern # patterns) original_path =
     (if str_in pattern original_path
      then Inl (PathTraversalError
                  (''Path traversal detected: '' @ pattern @ '' in '' @ original_path))
      else check_patterns patterns original_path)"

fun check_parts :: "string list \<Rightarrow> pyerr + unit" where
  "check_parts [] = Inr ()"
| "check_parts (part # parts) =
     (if part \<in> DANGEROUS_COMPONENTS
      then Inl (PathTraversalError (''Dangerous path component: '' @ part))
      else check_parts parts)"

definition check_path_traversal :: "string \<Rightarrow> string \<Rightarrow> pyerr + unit" where
  "check_path_traversal original_path resolved_path =
     (case check_patterns dangerous_patterns original_path of
        Inl e \<Rightarrow> Inl e
      | Inr u \<Rightarrow> check_parts (path_parts original_path))"

text \<open>
  \<open>_is_within_allowed_root\<close>. The \<open>except\<close> clause names \<open>ValueError\<close> and
  \<open>OSError\<close>; any other exception of \<open>commonpath\<close> would leave the method.
\<close>

definition is_within_allowed_root :: "path_validator \<Rightarrow> string \<Rightarrow> pyerr + bool" where
  "is_within_allowed_root self path =
     (case allowed_root self of
        None \<Rightarrow> Inr True
      | Some root \<Rightarrow>
          if root = [] then Inr True
          else (case commonpath root path of
                  Inl e \<Rightarrow> if is_ValueError e \<or> is_OSError e then Inr False else Inl e
                | Inr common \<Rightarrow> Inr (common = root)))"

text \<open>
  The test \<open>self.allowed_root and not self._is_within_allowed_root(abs_path)\<close>: the
  method is called only when a root is configured.
\<close>

definition outside_allowed_root :: "path_validator \<Rightarrow> string \<Rightarrow> pyerr + bool" where
  "outside_allowed_root self abs_path =
     (if root_configured self
      then (case is_within_allowed_root self abs_path of
              Inl e \<Rightarrow> Inl e
            | Inr within \<Rightarrow> Inr (\<not> within))
      else Inr False)"

definition validate_directory_path :: "path_validator \<Rightarrow> os_env \<Rightarrow> pyval \<Rightarrow> pyerr + string" where
  "validate_directory_path self env user_path =
     (case user_path of
        PyNone \<Rightarrow> Inl (ValueError ''Path must be a non-empty string'')
      | PyObj truth rep \<Rightarrow>
          (case truth of
             Inl e \<Rightarrow> Inl e
           | Inr b \<Rightarrow> Inl (ValueError ''Path must be a non-empty string''))
      | PyStr p \<Rightarrow>
          if p = [] then Inl (ValueError ''Path must be a non-empty string'')
          else
            (case abspath env (expanduser env (sanitize_path_string p)) of
               Inl e \<Rightarrow>
                 if is_OSError e \<or> is_ValueError e
                 then Inl (ValueError (''Invalid path format: '' @ err_str e))
                 else Inl e
             | Inr abs_path \<Rightarrow>
                 (case check_path_traversal p abs_path of
                    Inl e \<Rightarrow> Inl e
                  | Inr u \<Rightarrow>
                      (case outside_allowed_root self abs_path of
                         Inl e \<Rightarrow> Inl e
                       | Inr outside \<Rightarrow>
                           if outside
                           then Inl (PathTraversalError
                                  (''Path outside allowed directory: '' @ abs_path
                                   @ '' not within ''
                                   @ (case allowed_root self of None \<Rightarrow> ''None'' | Some r \<Rightarrow> r)))
                           else if \<not> path_exists env abs_path
                           then Inl (FileNotFoundError (''Directory does not exist: '' @ abs_path))
                           else if \<not> path_isdir env abs_path
                           then Inl (ValueError (''Path is not a directory: '' @ abs_path))
                           else if \<not> access_R_OK env abs_path
                           then Inl (PermissionError (''Directory not readable: '' @ abs_path))
                           else
                             (let depth = length (path_parts abs_path)
                              in if int depth > max_depth self
                                 then Inl (ValueError
                                        (''Directory depth '' @ str_nat depth
                                         @ '' exceeds maximum '' @ str_int (max_depth self)))
                                 else Inr abs_path)))))"

text \<open>
  \<open>validate_file_path\<close>. Here \<open>abspath\<close> stands outside any \<open>try\<close>. An \<open>OSError\<close> of
  \<open>os.path.getsize\<close> is raised again as \<open>PermissionError\<close>; \<open>FileSizeError\<close> is not an
  \<open>OSError\<close> and leaves the \<open>try\<close> as it is.
\<close>

definition validate_file_path ::
  "path_validator \<Rightarrow> os_env \<Rightarrow> pyval \<Rightarrow> bool \<Rightarrow> pyerr + string" where
  "validate_file_path self env user_path must_exist =
     (case user_path of
        PyNone \<Rightarrow> Inl (ValueError ''File path must be a non-empty string'')
      | PyObj truth rep \<Rightarrow>
          (case truth of
             Inl e \<Rightarrow> Inl e
           | Inr b \<Rightarrow> Inl (ValueError ''File path must be a non-empty string''))
      | PyStr p \<Rightarrow>
          if p = [] then Inl (ValueError ''File path must be a non-empty string'')
          else
            (case abspath env (expanduser env (sanitize_path_string p)) of
               Inl e \<Rightarrow> Inl e
             | Inr abs_path \<Rightarrow>
                 (case check_path_traversal p abs_path of
                    Inl e \<Rightarrow> Inl e
                  | Inr u \<Rightarrow>
                      (case outside_allowed_root self abs_path of
                         Inl e \<Rightarrow> Inl e
                       | Inr outside \<Rightarrow>
                           if outside
                           then Inl (PathTraversalError
                                  (''File path outside allowed directory: '' @ abs_path))
                           else
                             (let file_ext = lower (snd (splitext abs_path))
                              in if file_ext \<in> BLOCKED_EXTENSIONS
                                 then Inl (ValueError (''File type not allowed: '' @ file_ext))
                                 else if must_exist
                                 then
                                   (if \<not> path_exists env abs_path
                                    then Inl (FileNotFoundError (''File does not exist: '' @ abs_path))
                                    else if \<not> path_isfile env abs_path
                                    then Inl (ValueError (''Path is not a file: '' @ abs_path))
                                    else
                                      (case getsize env abs_path of
                                         Inl e \<Rightarrow>
                                           if is_OSError e
                                           then Inl (PermissionError
                                                  (''Cannot access file: '' @ abs_path @ '' - '' @ err_str e))
                                           else Inl e
                                       | Inr file_size \<Rightarrow>
                                           if file_size > max_file_size self
                                           then Inl (FileSizeError
                                                  (''File too large: '' @ str_int file_size
                                                   @ '' bytes (max: '' @ str_int (max_file_size self) @ '')''))
                                           else Inr abs_path))
                                 else Inr abs_path)))))"

section \<open>\<open>utils/exceptions.py\<close>: \<open>create_error_response\<close>\<close>

text \<open>
  The dictionary that the request layer sends back for an exception, and the HTTP status.
  The status is looked up by class, a subclass matching as its base: of the classes of
  \<open>EditorError\<close> only the seven in the table have a status of their own. Every other
  exception gets the fixed \<open>user_message\<close> and its own \<open>str(error)\<close> as \<open>message\<close>.
  The keys \<open>context\<close> and \<open>cause\<close> of the dictionary are not modelled.
\<close>

record error_response =
  error_code :: string
  message :: string
  user_message :: string
  status_code :: nat

fun class_name :: "editor_error_class \<Rightarrow> string" where
  "class_name ValidationError_class = ''ValidationError''"
| "class_name InvalidScenarioError_class = ''InvalidScenarioError''"
| "class_name ScenarioNotFoundError_class = ''ScenarioNotFoundError''"
| "class_name ScenarioLoadError_class = ''ScenarioLoadError''"
| "class_name YAMLParsingError_class = ''YAMLParsingError''"
| "class_name FileAccessError_class = ''FileAccessError''"
| "class_name ConfigurationError_class = ''ConfigurationError''"
| "class_name ResourceLimitError_class = ''ResourceLimitError''"
| "class_name ScenarioError_class = ''ScenarioError''"
| "class_name FileParsingError_class = ''FileParsingError''"
| "class_name EmpyrionEditorError_class = ''EmpyrionEditorError''"

fun status_code_map :: "editor_error_class \<Rightarrow> nat" where
  "status_code_map ValidationError_class = 400"
| "status_code_map InvalidScenarioError_class = 400"
| "status_code_map ScenarioNotFoundError_class = 404"
| "status_code_map FileAccessError_class = 403"
| "status_code_map ResourceLimitError_class = 413"
| "status_code_map YAMLParsingError_class = 422"
| "status_code_map ConfigurationError_class = 500"
| "status_code_map cls = 500"

fun create_error_response :: "pyerr \<Rightarrow> error_response" where
  "create_error_response (EditorError cls m um) =
     \<lparr>error_code = class_name cls, message = m, user_message = um,
      status_code = status_code_map cls\<rparr>"
| "create_error_response error =
     \<lparr>error_code = ''UnexpectedError'', message = err_str error,
      user_message = ''An unexpected error occurred'', status_code = 500\<rparr>"

section \<open>\<open>scenario_loader.py\<close>: \<open>ScenarioLoader\<close>\<close>

text \<open>
  The loader's configuration, as \<open>__init__\<close> sets it. The calls of the logger are left
  out everywhere: they write a record and return \<open>None\<close>.
\<close>

record scenario_loader =
  loader_max_file_size :: int
  required_files :: "string list"
  optional_files :: "string list"
  file_size_limits :: "(string \<times> int) list"

definition ScenarioLoader_init :: "int \<Rightarrow> scenario_loader" where
  "ScenarioLoader_init mfs =
     \<lparr>loader_max_file_size = mfs,
      required_files = [''gameoptions.yaml'', ''description.txt''],
      optional_files = [''SolarSystemConfig.yaml'', ''RandomSolarSystemConfig.yaml'',
                        ''preview.jpg'', ''preview.png'', ''playfield.yaml''],
      file_size_limits = [(''.yaml'', 10 * 1024 * 1024), (''.yml'', 10 * 1024 * 1024),
                          (''.txt'', 1 * 1024 * 1024), (''.jpg'', 5 * 1024 * 1024),
                          (''.png'', 5 * 1024 * 1024)]\<rparr>"

text \<open>\<open>self.file_size_limits.get(file_ext, self.max_file_size)\<close>.\<close>

definition size_limit_for :: "scenario_loader \<Rightarrow> string \<Rightarrow> int" where
  "size_limit_for self file_ext =
     (case map_of (file_size_limits self) file_ext of
        None \<Rightarrow> loader_max_file_size self
      | Some limit \<Rightarrow> limit)"

text \<open>
  The loop of \<open>is_valid_scenario\<close> over the required files. \<open>Inr None\<close> is a
  \<open>return False\<close> from inside the loop; \<open>Inr (Some missing_files)\<close> is the end of the
  loop. An exception of \<open>os.path.getsize\<close> other than \<open>OSError\<close> leaves the loop.
\<close>

fun check_required_files ::
  "scenario_loader \<Rightarrow> os_env \<Rightarrow> string \<Rightarrow> string list \<Rightarrow> string list
     \<Rightarrow> pyerr + string list option" where
  "check_required_files self env directory_path [] missing_files = Inr (Some missing_files)"
| "check_required_files self env directory_path (required_file # rest) missing_files =
     (let file_path = path_join directory_path required_file
      in if \<not> path_exists env file_path
         then check_required_files self env directory_path rest (missing_files @ [required_file])
         else if \<not> access_R_OK env file_path then Inr None
         else (case getsize env file_path of
                 Inl e \<Rightarrow> if is_OSError e then Inr None else Inl e
               | Inr file_size \<Rightarrow>
                   (let file_ext = lower (snd (splitext required_file));
                        size_limit = size_limit_for self file_ext
                    in if file_size > size_limit then Inr None
                       else check_required_files self env directory_path rest missing_files)))"

text \<open>The body of the outer \<open>try\<close> of \<open>is_valid_scenario\<close>.\<close>

definition scenario_checks :: "scenario_loader \<Rightarrow> os_env \<Rightarrow> pyval \<Rightarrow> pyerr + bool" where
  "scenario_checks self env directory_path =
     (case directory_path of
        PyNone \<Rightarrow> Inr False
      | PyObj truth rep \<Rightarrow> (case truth of Inl e \<Rightarrow> Inl e | Inr b \<Rightarrow> Inr False)
      | PyStr d \<Rightarrow>
          if d = [] then Inr False
          else if \<not> path_exists env d then Inr False
          else if \<not> path_isdir env d then Inr False
          else if \<not> access_R_OK env d then Inr False
          else
            (case check_required_files self env d (required_files self) [] of
               Inl e \<Rightarrow> Inl e
             | Inr None \<Rightarrow> Inr False
             | Inr (Some missing_files) \<Rightarrow>
                 if missing_files \<noteq> [] then Inr False
                 else
                   (case open_read env (path_join d ''gameoptions.yaml'') (Some 1024) of
                      Inl e \<Rightarrow> Inr False
                    | Inr content \<Rightarrow> if strip content = [] then Inr False else Inr True)))"

text \<open>
  The method as it is written under the decorator: the outer \<open>except Exception\<close>
  turns every exception of the body into \<open>False\<close>.
\<close>

definition is_valid_scenario_func :: "scenario_loader \<Rightarrow> os_env \<Rightarrow> pyval \<Rightarrow> pyerr + bool" where
  "is_valid_scenario_func self env directory_path =
     (case scenario_checks self env directory_path of
        Inl e \<Rightarrow> Inr False
      | Inr b \<Rightarrow> Inr b)"

text \<open>
  \<open>repr_raises v\<close> is the exception that \<open>repr(v)\<close> raises, \<open>None\<close> when it
  returns; \<open>repr\<close> of \<open>None\<close> and of a \<open>str\<close> always returns.
\<close>

fun repr_raises :: "pyval \<Rightarrow> pyerr option" where
  "repr_raises PyNone = None"
| "repr_raises (PyStr s) = None"
| "repr_raises (PyObj truth rep) = (case rep of Inl e \<Rightarrow> Some e | Inr s \<Rightarrow> None)"

text \<open>
  The wrapper that \<open>logged_function(..., include_args=True)\<close> in
  \<open>utils/logging_config.py\<close> puts around a method called with one positional
  argument. Before the call, and outside any \<open>try\<close>, it evaluates \<open>str(args)\<close> for
  the tuple of the loader and the argument, which takes the \<open>repr\<close> of both (the
  loader's is the one of \<open>object\<close>); an exception of \<open>repr\<close> leaves the wrapper.
  Then it logs, makes the call inside \<open>PerformanceLogger\<close>, whose \<open>__exit__\<close> logs
  and returns \<open>None\<close>, and passes the result on or lets the exception through.
\<close>

definition logged_function :: "pyval \<Rightarrow> pyerr + 'a \<Rightarrow> pyerr + 'a" where
  "logged_function arg call =
     (case repr_raises arg of
        Some e \<Rightarrow> Inl e
      | None \<Rightarrow> call)"

text \<open>\<open>is_valid_scenario\<close>, as its callers see it: the decorated method.\<close>

definition is_valid_scenario :: "scenario_loader \<Rightarrow> os_env \<Rightarrow> pyval \<Rightarrow> pyerr + bool" where
  "is_valid_scenario self env directory_path =
     logged_function directory_path (is_valid_scenario_func self env directory_path)"

subsection \<open>Python's operators on the parsed YAML\<close>

fun truthy :: "yaml \<Rightarrow> bool" where
  "truthy YNull = False"
| "truthy (YBool b) = b"
| "truthy (YInt i) = (i \<noteq> 0)"
| "truthy (YStr s) = (s \<noteq> [])"
| "truthy (YSeq xs) = (xs \<noteq> [])"
| "truthy (YSet xs) = (xs \<noteq> [])"
| "truthy (YMap kvs) = (kvs \<noteq> [])"
| "truthy (YOther b) = b"

text \<open>\<open>py_in key v\<close> is \<open>key in v\<close> for a \<open>str\<close> key.\<close>

fun py_in :: "string \<Rightarrow> yaml \<Rightarrow> pyerr + bool" where
  "py_in key (YStr s) = Inr (str_in key s)"
| "py_in key (YSeq xs) = Inr (YStr key \<in> set xs)"
| "py_in key (YSet xs) = Inr (YStr key \<in> set xs)"
| "py_in key (YMap kvs) = Inr (YStr key \<in> fst ` set kvs)"
| "py_in key v = Inl (TypeError ''argument is not iterable'')"

text \<open>\<open>py_getitem v key\<close> is \<open>v[key]\<close> for a \<open>str\<close> key.\<close>

fun py_getitem :: "yaml \<Rightarrow> string \<Rightarrow> pyerr + yaml" where
  "py_getitem (YMap kvs) key =
     (case map_of kvs (YStr key) of None \<Rightarrow> Inl (KeyError key) | Some v \<Rightarrow> Inr v)"
| "py_getitem v key = Inl (TypeError ''indices must be integers or the object is not subscriptable'')"

text \<open>The items a \<open>for\<close> loop over the value visits.\<close>

fun py_iter :: "yaml \<Rightarrow> pyerr + yaml list" where
  "py_iter (YSeq xs) = Inr xs"
| "py_iter (YSet xs) = Inr xs"
| "py_iter (YMap kvs) = Inr (map fst kvs)"
| "py_iter (YStr s) = Inr (map (\<lambda>c. YStr [c]) s)"
| "py_iter v = Inl (TypeError ''object is not iterable'')"

subsection \<open>\<open>get_scenario_preview\<close>\<close>

record scenario_preview =
  name :: string
  path :: string
  description :: string
  preview_image :: "string option"
  game_mode :: string
  multiplayer_ready :: bool

text \<open>\<open>_load_yaml_file\<close>: \<open>None\<close> for every exception.\<close>

definition load_yaml_file :: "os_env \<Rightarrow> string \<Rightarrow> yaml" where
  "load_yaml_file env file_path =
     (case safe_load_file env file_path of Inl e \<Rightarrow> YNull | Inr data \<Rightarrow> data)"

text \<open>The loop over \<open>['jpg', 'png']\<close>, left at the first image that exists.\<close>

fun find_preview_image ::
  "os_env \<Rightarrow> string \<Rightarrow> string list \<Rightarrow> scenario_preview \<Rightarrow> scenario_preview" where
  "find_preview_image env scenario_path [] preview_data = preview_data"
| "find_preview_image env scenario_path (img_ext # rest) preview_data =
     (if path_exists env (path_join scenario_path (''preview.'' @ img_ext))
      then preview_data\<lparr>preview_image := Some (''preview.'' @ img_ext)\<rparr>
      else find_preview_image env scenario_path rest preview_data)"

text \<open>
  One round of the loop over the option sets: the preview as the round leaves it, and
  the exception that ended the round, if one did.
\<close>

definition option_set_step :: "yaml \<Rightarrow> scenario_preview \<Rightarrow> scenario_preview \<times> pyerr option" where
  "option_set_step option_set preview_data =
     (case py_in ''ValidFor'' option_set of
        Inl e \<Rightarrow> (preview_data, Some e)
      | Inr has_valid_for \<Rightarrow>
          if \<not> has_valid_for then (preview_data, None)
          else
            (case py_getitem option_set ''ValidFor'' of
               Inl e \<Rightarrow> (preview_data, Some e)
             | Inr valid_for \<Rightarrow>
                 (case py_in ''MP'' valid_for of
                    Inl e \<Rightarrow> (preview_data, Some e)
                  | Inr mp \<Rightarrow>
                      (let preview_data =
                             (if mp then preview_data\<lparr>multiplayer_ready := True\<rparr>
                              else preview_data)
                       in case py_in ''SP'' valid_for of
                            Inl e \<Rightarrow> (preview_data, Some e)
                          | Inr sp \<Rightarrow>
                              (case (if sp then py_in ''Creative'' valid_for else Inr False) of
                                 Inl e \<Rightarrow> (preview_data, Some e)
                               | Inr sp_and_creative \<Rightarrow>
                                   if sp_and_creative
                                   then (preview_data\<lparr>game_mode := ''Single Player''\<rparr>, None)
                                   else
                                     (case py_in ''MP'' valid_for of
                                        Inl e \<Rightarrow> (preview_data, Some e)
                                      | Inr mp2 \<Rightarrow>
                                          if mp2
                                          then (preview_data\<lparr>game_mode := ''Multiplayer''\<rparr>, None)
                                          else (preview_data, None)))))))"

fun option_sets_loop ::
  "yaml list \<Rightarrow> scenario_preview \<Rightarrow> scenario_preview \<times> pyerr option" where
  "option_sets_loop [] preview_data = (preview_data, None)"
| "option_sets_loop (option_set # rest) preview_data =
     (case option_set_step option_set preview_data of
        (preview_data', Some e) \<Rightarrow> (preview_data', Some e)
      | (preview_data', None) \<Rightarrow> option_sets_loop rest preview_data')"

text \<open>
  The last \<open>try\<close> of \<open>get_scenario_preview\<close>: the bare \<open>except\<close> keeps what the
  preview holds when an exception ends the block.
\<close>

definition check_game_options :: "os_env \<Rightarrow> string \<Rightarrow> scenario_preview \<Rightarrow> scenario_preview" where
  "check_game_options env scenario_path preview_data =
     (let gameoptions = load_yaml_file env (path_join scenario_path ''gameoptions.yaml'')
      in if \<not> truthy gameoptions then preview_data
         else
           (case py_in ''Options'' gameoptions of
              Inl e \<Rightarrow> preview_data
            | Inr has_options \<Rightarrow>
                if \<not> has_options then preview_data
                else
                  (case py_getitem gameoptions ''Options'' of
                     Inl e \<Rightarrow> preview_data
                   | Inr options \<Rightarrow>
                       (case py_iter options of
                          Inl e \<Rightarrow> preview_data
                        | Inr option_sets \<Rightarrow> fst (option_sets_loop option_sets preview_data)))))"

definition read_description :: "os_env \<Rightarrow> string \<Rightarrow> scenario_preview \<Rightarrow> scenario_preview" where
  "read_description env scenario_path preview_data =
     (let desc_path = path_join scenario_path ''description.txt''
      in if path_exists env desc_path
         then (case open_read env desc_path None of
                 Inl e \<Rightarrow> preview_data\<lparr>description := ''Error reading description''\<rparr>
               | Inr text \<Rightarrow> preview_data\<lparr>description := strip text\<rparr>)
         else preview_data)"

definition get_scenario_preview ::
  "scenario_loader \<Rightarrow> os_env \<Rightarrow> string \<Rightarrow> pyerr + scenario_preview" where
  "get_scenario_preview self env scenario_path =
     (case is_valid_scenario self env (PyStr scenario_path) of
        Inl e \<Rightarrow> Inl e
      | Inr valid \<Rightarrow>
          if \<not> valid then Inl (ValueError (''Invalid scenario directory: '' @ scenario_path))
          else
            (let preview_data =
                   \<lparr>name = basename scenario_path, path = scenario_path, description = [],
                    preview_image = None, game_mode = ''Unknown'', multiplayer_ready = False\<rparr>;
                 preview_data = read_description env scenario_path preview_data;
                 preview_data = find_preview_image env scenario_path [''jpg'', ''png''] preview_data;
                 preview_data = check_game_options env scenario_path preview_data
             in Inr preview_data))"

subsection \<open>\<open>_analyze_scenario_structure\<close>\<close>

text \<open>
  \<open>os.path.relpath(p, start)\<close>. \<open>commonprefix\<close> compares the smaller list of
  components with the larger one, as \<open>commonpath\<close> does.
\<close>

definition relpath :: "os_env \<Rightarrow> string \<Rightarrow> string \<Rightarrow> pyerr + string" where
  "relpath env p start =
     (if p = [] then Inl (ValueError ''no path specified'')
      else
        (case abspath env start of
           Inl e \<Rightarrow> Inl e
         | Inr abs_start \<Rightarrow>
             (case abspath env p of
                Inl e \<Rightarrow> Inl e
              | Inr abs_p \<Rightarrow>
                  (let start_list = filter (\<lambda>x. x \<noteq> []) (split_on CHR ''/'' abs_start);
                       path_list = filter (\<lambda>x. x \<noteq> []) (split_on CHR ''/'' abs_p);
                       s1 = (if path_list < start_list then path_list else start_list);
                       s2 = (if start_list < path_list then path_list else start_list)
                   in case common_loop s1 s2 of
                        Inl e \<Rightarrow> Inl e
                      | Inr common \<Rightarrow>
                          (let i = length common;
                               rel_list = replicate (length start_list - i) ''..'' @ drop i path_list
                           in case rel_list of
                                [] \<Rightarrow> Inr ''.''
                              | r # rs \<Rightarrow> Inr (foldl path_join r rs))))))"

record structure_summary =
  directories :: "string list"
  top_level_files :: "string list"
  playfields_count :: nat
  prefabs_count :: nat
  has_content :: bool
  has_custom_configs :: bool

text \<open>
  One directory of the walk, with its path relative to the scenario; the field
  \<open>top_level_files\<close> is the key \<open>'files'\<close> of the source's dictionary.
\<close>

definition walk_step ::
  "string \<Rightarrow> string list \<Rightarrow> string list \<Rightarrow> structure_summary \<Rightarrow> structure_summary" where
  "walk_step rel_path dirs file_names st =
     (let st = (if rel_path = ''.''
                then st\<lparr>top_level_files := top_level_files st @ file_names\<rparr>
                else st\<lparr>directories := directories st @ [rel_path]\<rparr>)
      in if str_in ''Playfields'' rel_path
         then st\<lparr>playfields_count :=
                    playfields_count st + length (filter (\<lambda>d. \<not> startswith d ''.'') dirs)\<rparr>
         else if str_in ''Prefabs'' rel_path
         then st\<lparr>prefabs_count :=
                    prefabs_count st + length (filter (\<lambda>f. endswith f ''.epb'') file_names)\<rparr>
         else if str_in ''Content'' rel_path
         then (let st = st\<lparr>has_content := True\<rparr>
               in if list_ex (\<lambda>f. endswith f ''.ecf'') file_names
                  then st\<lparr>has_custom_configs := True\<rparr>
                  else st)
         else st)"

text \<open>The loop over \<open>os.walk\<close>; \<open>except Exception: pass\<close> keeps the partial summary.\<close>

fun walk_loop ::
  "os_env \<Rightarrow> string \<Rightarrow> (string \<times> string list \<times> string list) list
     \<Rightarrow> structure_summary \<Rightarrow> structure_summary" where
  "walk_loop env scenario_path [] st = st"
| "walk_loop env scenario_path ((root, dirs, file_names) # rest) st =
     (case relpath env root scenario_path of
        Inl e \<Rightarrow> st
      | Inr rel_path \<Rightarrow> walk_loop env scenario_path rest (walk_step rel_path dirs file_names st))"

definition analyze_scenario_structure :: "os_env \<Rightarrow> string \<Rightarrow> structure_summary" where
  "analyze_scenario_structure env scenario_path =
     walk_loop env scenario_path (os_walk env scenario_path)
       \<lparr>directories = [], top_level_files = [], playfields_count = 0, prefabs_count = 0,
        has_content = False, has_custom_configs = False\<rparr>"

subsection \<open>\<open>load_scenario\<close>\<close>

text \<open>
  An entry of \<open>scenario_data['files']\<close>: \<open>YamlEntry path content\<close> is the dictionary with
  \<open>'type': 'yaml'\<close>, \<open>TextEntry path content\<close> the one with \<open>'type': 'text'\<close> and
  \<open>ErrorEntry path error\<close> the one with \<open>'type': 'error'\<close>.
\<close>

datatype file_entry =
    YamlEntry string yaml
  | TextEntry string string
  | ErrorEntry string string

record scenario_data =
  metadata :: scenario_preview
  files :: "string \<rightharpoonup> file_entry"
  structure_info :: structure_summary

definition config_files :: "(string \<times> string) list" where
  "config_files =
     [(''gameoptions.yaml'', ''Game Options''),
      (''SolarSystemConfig.yaml'', ''Solar System Config''),
      (''RandomPresets/SolarSystemConfig.yaml'', ''Random Solar System Config'')]"

text \<open>
  The \<open>try\<close> around one configuration file: the \<open>except\<close> clause builds the error
  entry from an exception of the block.
\<close>

definition load_file_entry :: "os_env \<Rightarrow> string \<Rightarrow> string \<Rightarrow> file_entry" where
  "load_file_entry env full_path file_path =
     (case (if endswith file_path ''.yaml''
            then Inr (YamlEntry file_path (load_yaml_file env full_path))
            else (case open_read env full_path None of
                    Inl e \<Rightarrow> Inl e
                  | Inr content \<Rightarrow> Inr (TextEntry file_path content))) of
        Inl e \<Rightarrow> ErrorEntry file_path (err_str e)
      | Inr entry \<Rightarrow> entry)"

fun load_config_files ::
  "os_env \<Rightarrow> string \<Rightarrow> (string \<times> string) list \<Rightarrow> (string \<rightharpoonup> file_entry)
     \<Rightarrow> (string \<rightharpoonup> file_entry)" where
  "load_config_files env scenario_path [] loaded = loaded"
| "load_config_files env scenario_path ((file_path, file_name) # rest) loaded =
     (let full_path = path_join scenario_path file_path
      in if path_exists env full_path
         then load_config_files env scenario_path rest
                (loaded(file_name \<mapsto> load_file_entry env full_path file_path))
         else load_config_files env scenario_path rest loaded)"

definition load_scenario :: "scenario_loader \<Rightarrow> os_env \<Rightarrow> string \<Rightarrow> pyerr + scenario_data" where
  "load_scenario self env scenario_path =
     (case is_valid_scenario self env (PyStr scenario_path) of
        Inl e \<Rightarrow> Inl e
      | Inr valid \<Rightarrow>
          if \<not> valid then Inl (ValueError (''Invalid scenario directory: '' @ scenario_path))
          else
            (case get_scenario_preview self env scenario_path of
               Inl e \<Rightarrow> Inl e
             | Inr preview \<Rightarrow>
                 Inr \<lparr>metadata = preview,
                      files = load_config_files env scenario_path config_files Map.empty,
                      structure_info = analyze_scenario_structure env scenario_path\<rparr>))"

section \<open>A concrete installation\<close>

text \<open>
  The home directory of a user \<open>alice\<close>, which is also the working directory and the
  validator's root, as \<open>app.py\<close> sets it up. Under \<open>scenarios\<close> it holds
  \<open>Minimal\<close> with the two required files only, \<open>Default\<close> with a
  \<open>SolarSystemConfig.yaml\<close> that is not YAML, \<open>Latin\<close> whose description is not
  UTF-8, \<open>Huge\<close> whose two files are one byte over their limits and \<open>Blank\<close> whose
  options file holds spaces only. A file is listed with its size and with what reading
  it as text gives.
\<close>

definition demo_dirs :: "string list" where
  "demo_dirs =
     [''/'', ''/etc'', ''/home'', ''/home/alice'', ''/home/alice-other'', ''/home/alice/scenarios'',
      ''/home/alice/scenarios/Minimal'', ''/home/alice/scenarios/Default'',
      ''/home/alice/scenarios/Latin'', ''/home/alice/scenarios/Huge'',
      ''/home/alice/scenarios/Blank'']"

definition demo_files :: "(string \<times> int \<times> (pyerr + string)) list" where
  "demo_files =
     [(''/home/alice/scenarios/Minimal/gameoptions.yaml'', 41,
         Inr ''Options: [{ValidFor: [MP, SP, Creative]}]''),
      (''/home/alice/scenarios/Minimal/description.txt'', 21, Inr ''  A small scenario.  ''),
      (''/home/alice/scenarios/Default/gameoptions.yaml'', 55,
         Inr ''Options: [{ValidFor: [SP, Creative]}, {ValidFor: [MP]}]''),
      (''/home/alice/scenarios/Default/description.txt'', 7, Inr ''Default''),
      (''/home/alice/scenarios/Default/SolarSystemConfig.yaml'', 5, Inr ''a: [b''),
      (''/home/alice/scenarios/Latin/gameoptions.yaml'', 11, Inr ''Options: []''),
      (''/home/alice/scenarios/Latin/description.txt'', 5,
         Inl (UnicodeDecodeError ''utf-8 codec cannot decode byte 0xe9'')),
      (''/home/alice/scenarios/Huge/gameoptions.yaml'', 10485761, Inr ''Options: []''),
      (''/home/alice/scenarios/Huge/description.txt'', 1048577, Inr ''Huge''),
      (''/home/alice/scenarios/Blank/gameoptions.yaml'', 3, Inr ''   ''),
      (''/home/alice/scenarios/Blank/description.txt'', 5, Inr ''Blank'')]"

definition demo_yaml :: "(string \<times> (pyerr + yaml)) list" where
  "demo_yaml =
     [(''/home/alice/scenarios/Minimal/gameoptions.yaml'',
         Inr (YMap [(YStr ''Options'',
                     YSeq [YMap [(YStr ''ValidFor'',
                                  YSeq [YStr ''MP'', YStr ''SP'', YStr ''Creative''])]])])),
      (''/home/alice/scenarios/Default/gameoptions.yaml'',
         Inr (YMap [(YStr ''Options'',
                     YSeq [YMap [(YStr ''ValidFor'', YSeq [YStr ''SP'', YStr ''Creative''])],
                           YMap [(YStr ''ValidFor'', YSeq [YStr ''MP''])]])])),
      (''/home/alice/scenarios/Default/SolarSystemConfig.yaml'',
         Inl (YAMLError ''while parsing a flow sequence: expected , or ]'')),
      (''/home/alice/scenarios/Latin/gameoptions.yaml'',
         Inr (YMap [(YStr ''Options'', YSeq [])]))]"

definition demo_env :: os_env where
  "demo_env =
     \<lparr>getcwd = Inr ''/home/alice'',
      environ_HOME = Some ''/home/alice'',
      pw_dir_uid = Some ''/home/alice'',
      pw_dir_name = (\<lambda>user. None),
      path_exists = (\<lambda>p. p \<in> set demo_dirs \<or> map_of demo_files p \<noteq> None),
      path_isdir = (\<lambda>p. p \<in> set demo_dirs),
      path_isfile = (\<lambda>p. map_of demo_files p \<noteq> None),
      access_R_OK = (\<lambda>p. p \<in> set demo_dirs \<or> map_of demo_files p \<noteq> None),
      getsize = (\<lambda>p. case map_of demo_files p of
                         None \<Rightarrow> Inl (FileNotFoundError ''No such file or directory'')
                       | Some (n, r) \<Rightarrow> Inr n),
      open_read = (\<lambda>p size. case map_of demo_files p of
                         None \<Rightarrow> Inl (FileNotFoundError ''No such file or directory'')
                       | Some (n, r) \<Rightarrow>
                           (case r of
                              Inl e \<Rightarrow> Inl e
                            | Inr content \<Rightarrow>
                                Inr (case size of None \<Rightarrow> content | Some k \<Rightarrow> take k content))),
      safe_load_file = (\<lambda>p. case map_of demo_yaml p of
                         None \<Rightarrow> Inl (FileNotFoundError ''No such file or directory'')
                       | Some r \<Rightarrow> r),
      os_walk = (\<lambda>top. if top = ''/home/alice/scenarios/Default''
                       then [(top, [], [''gameoptions.yaml'', ''description.txt'', ''SolarSystemConfig.yaml''])]
                       else if top = ''/home/alice/scenarios/Minimal''
                       then [(top, [], [''gameoptions.yaml'', ''description.txt''])]
                       else if top = ''/home/alice/scenarios/Latin''
                       then [(top, [], [''gameoptions.yaml'', ''description.txt''])]
                       else [])\<rparr>"

text \<open>The validator of \<open>app.py\<close>: root \<open>expanduser('~')\<close>, 50 MB, depth 20.\<close>

definition demo_validator :: path_validator where
  "demo_validator =
     \<lparr>allowed_root = Some ''/home/alice'', max_file_size = 50 * 1024 * 1024, max_depth = 20\<rparr>"

definition demo_loader :: scenario_loader where
  "demo_loader = ScenarioLoader_init (10 * 1024 * 1024)"

section \<open>Notions of the specification\<close>

text \<open>
  A path lies within a root, component by component, when the components of the root
  are the first components of the path: the path is the root or a descendant of it.
\<close>

definition component_wise_within :: "string \<Rightarrow> string \<Rightarrow> bool" where
  "component_wise_within root p = prefix (path_components root) (path_components p)"

text \<open>
  A canonical absolute path is one slash followed by its components, joined by single
  slashes. A component is clean when it is neither empty nor a single dot and holds no
  slash.
\<close>

definition canonical_absolute :: "string \<Rightarrow> bool" where
  "canonical_absolute p = (p = ''/'' @ str_join ''/'' (path_components p))"

definition clean_component :: "string \<Rightarrow> bool" where
  "clean_component c = (c \<noteq> [] \<and> c \<noteq> ''.'' \<and> CHR ''/'' \<notin> set c)"

text \<open>\<open>os.getcwd()\<close> returns an absolute path whenever it returns.\<close>

definition cwd_absolute :: "os_env \<Rightarrow> bool" where
  "cwd_absolute env = (case getcwd env of Inl e \<Rightarrow> True | Inr cwd \<Rightarrow> startswith cwd ''/'')"










section \<open>Splitting and joining\<close>

lemma split_on_not_Nil [simp]: "split_on sep s \<noteq> []"
  by (induction s) (auto split: list.splits)

lemma split_on_no_sep: "sep \<notin> set s \<Longrightarrow> split_on sep s = [s]"
  by (induction s) auto

lemma split_on_append_sep:
  "sep \<notin> set x \<Longrightarrow> split_on sep (x @ sep # rest) = x # split_on sep rest"
  by (induction x) auto

lemma split_on_sep_free: "c \<in> set (split_on sep s) \<Longrightarrow> sep \<notin> set c"
proof (induction s arbitrary: c)
  case Nil
  then show ?case by simp
next
  case (Cons a s)
  then show ?case
    by (cases "split_on sep s") (auto split: if_splits)
qed

lemma split_on_str_join:
  "cs \<noteq> [] \<Longrightarrow> \<forall>c\<in>set cs. sep \<notin> set c \<Longrightarrow> split_on sep (str_join [sep] cs) = cs"
proof (induction cs)
  case Nil
  then show ?case by simp
next
  case (Cons x cs)
  show ?case
  proof (cases cs)
    case Nil
    with Cons.prems show ?thesis by (simp add: split_on_no_sep)
  next
    case (Cons y ys)
    with Cons.IH Cons.prems have "split_on sep (str_join [sep] cs) = cs" by simp
    with Cons Cons.prems show ?thesis by (simp add: split_on_append_sep)
  qed
qed

lemma path_components_clean: "c \<in> set (path_components p) \<Longrightarrow> clean_component c"
  by (auto simp: path_components_def clean_component_def dest: split_on_sep_free)

lemma path_components_join:
  assumes "\<forall>c\<in>set cs. clean_component c"
  shows "path_components (str_join ''/'' cs) = cs"
proof (cases cs)
  case Nil
  then show ?thesis by (simp add: path_components_def)
next
  case (Cons x xs)
  with assms have "split_on CHR ''/'' (str_join ''/'' cs) = cs"
    by (intro split_on_str_join) (auto simp: clean_component_def)
  with assms show ?thesis
    by (auto simp: path_components_def clean_component_def filter_id_conv)
qed

lemma path_components_slash_join:
  assumes "\<forall>c\<in>set cs. clean_component c"
  shows "path_components (''/'' @ str_join ''/'' cs) = cs"
proof -
  have "path_components (''/'' @ s) = path_components s" for s
    by (simp add: path_components_def)
  with path_components_join [OF assms] show ?thesis by simp
qed

lemma common_loop_le:
  "s1 \<le> s2 \<Longrightarrow> common_loop s1 s2 = Inr (longest_common_prefix s1 s2)"
  by (induction s1 s2 rule: common_loop.induct) auto

lemma longest_common_prefix_commute:
  "longest_common_prefix xs ys = longest_common_prefix ys xs"
  by (induction xs ys rule: longest_common_prefix.induct) auto

lemma commonpath_eq:
  assumes "startswith p1 ''/'' = startswith p2 ''/''"
  shows "commonpath p1 p2 =
    Inr ((if startswith p1 ''/'' then ''/'' else []) @
         str_join ''/'' (longest_common_prefix (path_components p1) (path_components p2)))"
proof -
  let ?a = "path_components p1" and ?b = "path_components p2"
  consider "?a < ?b" | "?a = ?b" | "?b < ?a" by (rule linorder_cases)
  then show ?thesis
  proof cases
    case 1
    then have n: "\<not> ?b < ?a" by auto
    from 1 have "common_loop ?a ?b = Inr (longest_common_prefix ?a ?b)"
      by (intro common_loop_le) simp
    with 1 n assms show ?thesis
      by (simp add: commonpath_def Let_def)
  next
    case 2
    then have "common_loop ?a ?b = Inr (longest_common_prefix ?a ?b)"
      by (intro common_loop_le) simp
    with 2 assms show ?thesis
      by (simp add: commonpath_def Let_def)
  next
    case 3
    then have n: "\<not> ?a < ?b" by auto
    from 3 have "common_loop ?b ?a = Inr (longest_common_prefix ?b ?a)"
      by (intro common_loop_le) simp
    with 3 n assms show ?thesis
      by (simp add: commonpath_def Let_def longest_common_prefix_commute [of ?a ?b])
  qed
qed

lemma longest_common_prefix_eq_left:
  "longest_common_prefix xs ys = xs \<longleftrightarrow> prefix xs ys"
  by (induction xs ys rule: longest_common_prefix.induct) auto

lemma longest_common_prefix_clean:
  "c \<in> set (longest_common_prefix (path_components p1) (path_components p2)) \<Longrightarrow> clean_component c"
  using longest_common_prefix_prefix1 [of "path_components p1" "path_components p2"]
  by (auto dest!: set_mono_prefix intro: path_components_clean)


section \<open>The containment check\<close>

lemma path_components_prefixed_join:
  assumes "\<forall>c\<in>set cs. clean_component c"
  shows "path_components ((if b then ''/'' else []) @ str_join ''/'' cs) = cs"
  using path_components_join [OF assms] path_components_slash_join [OF assms] by simp

lemma is_within_allowed_root_False:
  assumes "allowed_root self = Some root" and "root \<noteq> []"
    and "\<not> component_wise_within root q"
  shows "is_within_allowed_root self q = Inr False"
proof (cases "startswith root ''/'' = startswith q ''/''")
  case False
  then show ?thesis
    using assms by (simp add: is_within_allowed_root_def commonpath_def)
next
  case True
  let ?l = "longest_common_prefix (path_components root) (path_components q)"
  let ?x = "(if startswith root ''/'' then ''/'' else []) @ str_join ''/'' ?l"
  have clean: "\<forall>c\<in>set ?l. clean_component c"
    using longest_common_prefix_clean by blast
  have "?x \<noteq> root"
  proof
    assume "?x = root"
    then have "path_components root = path_components ?x" by simp
    also have "\<dots> = ?l" by (rule path_components_prefixed_join [OF clean])
    finally have "?l = path_components root" by simp
    then have "prefix (path_components root) (path_components q)"
      by (simp only: longest_common_prefix_eq_left)
    with assms(3) show False by (simp add: component_wise_within_def)
  qed
  with assms True show ?thesis
    by (simp add: is_within_allowed_root_def commonpath_eq)
qed

lemma is_within_allowed_root_True:
  assumes "allowed_root self = Some root" and "canonical_absolute root"
    and "startswith q ''/''" and "component_wise_within root q"
  shows "is_within_allowed_root self q = Inr True"
proof -
  from assms(2) have root: "root = ''/'' @ str_join ''/'' (path_components root)"
    by (simp add: canonical_absolute_def)
  then have abs: "startswith root ''/''"
    by (metis append_Cons append_Nil prefix_code(1) startswith_def Cons_prefix_Cons)
  from assms(4) have "longest_common_prefix (path_components root) (path_components q)
      = path_components root"
    by (simp add: component_wise_within_def longest_common_prefix_eq_left)
  with abs assms(3) have "commonpath root q = Inr (''/'' @ str_join ''/'' (path_components root))"
    by (simp add: commonpath_eq)
  with root have "commonpath root q = Inr root" by simp
  moreover from abs have "root \<noteq> []" by (auto simp: startswith_def)
  ultimately show ?thesis
    using assms(1) by (simp add: is_within_allowed_root_def)
qed

lemma check_patterns_error:
  "check_patterns ps p = Inl e \<Longrightarrow> \<exists>m. e = PathTraversalError m"
  by (induction ps) (auto split: if_splits)

lemma check_parts_error:
  "check_parts ps = Inl e \<Longrightarrow> \<exists>m. e = PathTraversalError m"
  by (induction ps) (auto split: if_splits)

lemma check_path_traversal_error:
  "check_path_traversal p a = Inl e \<Longrightarrow> \<exists>m. e = PathTraversalError m"
  by (auto simp: check_path_traversal_def split: sum.splits
      dest: check_patterns_error check_parts_error)

lemma normpath_absolute: "startswith x ''/'' \<Longrightarrow> startswith (normpath x) ''/''"
  by (auto simp: normpath_def Let_def startswith_def numeral_2_eq_2)

lemma path_join_absolute: "startswith c ''/'' \<Longrightarrow> startswith (path_join c x) ''/''"
  by (cases c) (auto simp: path_join_def startswith_def)

lemma abspath_absolute:
  assumes "cwd_absolute env" and "abspath env x = Inr a"
  shows "startswith a ''/''"
  using assms
  by (auto simp: abspath_def cwd_absolute_def split: if_splits sum.splits
      intro: normpath_absolute path_join_absolute)

lemma is_within_allowed_root_TrueD:
  assumes "is_within_allowed_root self a = Inr True"
    and "allowed_root self = Some root" and "root \<noteq> []"
  shows "component_wise_within root a"
proof (rule ccontr)
  assume "\<not> component_wise_within root a"
  with assms(2,3) have "is_within_allowed_root self a = Inr False"
    by (rule is_within_allowed_root_False)
  with assms(1) show False by simp
qed

lemma validate_directory_path_Inr:
  assumes "validate_directory_path self env user_path = Inr r"
  shows "\<exists>p. user_path = PyStr p \<and> p \<noteq> []
           \<and> abspath env (expanduser env (sanitize_path_string p)) = Inr r
           \<and> check_path_traversal p r = Inr ()
           \<and> outside_allowed_root self r = Inr False
           \<and> path_exists env r \<and> path_isdir env r \<and> access_R_OK env r
           \<and> int (length (path_parts r)) \<le> max_depth self"
proof (cases user_path)
  case PyNone
  with assms show ?thesis by (simp add: validate_directory_path_def)
next
  case (PyObj t r)
  with assms show ?thesis by (simp add: validate_directory_path_def split: sum.splits)
next
  case (PyStr p)
  with assms have p: "p \<noteq> []"
    by (auto simp: validate_directory_path_def)
  from assms PyStr p obtain a where a: "abspath env (expanduser env (sanitize_path_string p)) = Inr a"
    by (cases "abspath env (expanduser env (sanitize_path_string p))")
       (auto simp: validate_directory_path_def split: if_splits)
  from assms PyStr p a obtain u where u: "check_path_traversal p a = Inr u"
    by (cases "check_path_traversal p a") (auto simp: validate_directory_path_def)
  from assms PyStr p a u obtain out where out: "outside_allowed_root self a = Inr out"
    by (cases "outside_allowed_root self a") (auto simp: validate_directory_path_def)
  from assms PyStr p a u out show ?thesis
    by (auto simp: validate_directory_path_def Let_def split: if_splits)
qed


text \<open>
  The root that \<open>__init__\<close> stores is absolute, and canonical unless it starts with two
  slashes, which \<open>os.path.abspath\<close> keeps and \<open>os.path.commonpath\<close> does not: for such
  a root the containment check lets no path pass, the root included.
\<close>

lemma normpath_comps_clean:
  assumes "\<forall>c\<in>set acc. clean_component c" and "\<forall>c\<in>set comps. CHR ''/'' \<notin> set c"
  shows "\<forall>c\<in>set (normpath_comps n acc comps). clean_component c"
  using assms
proof (induction comps arbitrary: acc)
  case Nil
  then show ?case by simp
next
  case (Cons x comps)
  have b: "\<forall>c\<in>set (butlast acc). clean_component c"
    using Cons.prems(1) by (auto dest: in_set_butlastD)
  have a: "x \<noteq> [] \<Longrightarrow> x \<noteq> ''.'' \<Longrightarrow> \<forall>c\<in>set (acc @ [x]). clean_component c"
    using Cons.prems by (auto simp: clean_component_def)
  from Cons.prems(2) have r: "\<forall>c\<in>set comps. CHR ''/'' \<notin> set c" by simp
  show ?case
    using Cons.IH [OF Cons.prems(1) r] Cons.IH [OF b r] Cons.IH [OF a r]
    by (simp del: set_append) 
qed

lemma normpath_canonical:
  assumes "startswith x ''/''" and "\<not> startswith (normpath x) ''//''"
  shows "canonical_absolute (normpath x)"
proof -
  let ?n = "if startswith x ''//'' \<and> \<not> startswith x ''///'' then 2 else (1::nat)"
  let ?comps = "normpath_comps ?n [] (split_on CHR ''/'' x)"
  from assms(1) have ne: "x \<noteq> []" by (auto simp: startswith_def)
  with assms(1) have np: "normpath x = replicate ?n CHR ''/'' @ str_join ''/'' ?comps"
    by (simp add: normpath_def Let_def)
  have clean: "\<forall>c\<in>set ?comps. clean_component c"
    by (rule normpath_comps_clean) (auto dest: split_on_sep_free)
  have "?n = 1"
  proof (rule ccontr)
    assume "?n \<noteq> 1"
    then have "?n = 2" by (simp split: if_splits)
    with np have "startswith (normpath x) ''//''"
      by (simp add: startswith_def numeral_2_eq_2)
    with assms(2) show False by simp
  qed
  with np have eq: "normpath x = ''/'' @ str_join ''/'' ?comps" by simp
  then have "path_components (normpath x) = ?comps"
    using path_components_slash_join [OF clean] by simp
  with eq show ?thesis by (simp add: canonical_absolute_def)
qed

lemma abspath_canonical:
  assumes "cwd_absolute env" and "abspath env x = Inr a" and "\<not> startswith a ''//''"
  shows "canonical_absolute a"
  using assms
  by (auto simp: abspath_def cwd_absolute_def split: if_splits sum.splits
      intro!: normpath_canonical path_join_absolute)

lemma configured_root_canonical:
  assumes "PathValidator_init env (Some r) mfs md = Inr self" and "r \<noteq> []"
    and "cwd_absolute env"
  shows "\<exists>root. allowed_root self = Some root \<and> root \<noteq> [] \<and> startswith root ''/''
           \<and> (\<not> startswith root ''//'' \<longrightarrow> canonical_absolute root)"
proof -
  from assms(1,2) obtain root where root: "abspath env r = Inr root" "allowed_root self = Some root"
    by (auto simp: PathValidator_init_def split: sum.splits)
  from assms(3) root(1) have abs: "startswith root ''/''" by (rule abspath_absolute)
  then have "root \<noteq> []" by (auto simp: startswith_def)
  with root abs abspath_canonical [OF assms(3) root(1)] show ?thesis by blast
qed

lemma double_slash_root_contains_nothing:
  "is_within_allowed_root \<lparr>allowed_root = Some ''//srv'', max_file_size = mfs, max_depth = md\<rparr> a
     = Inr False"
proof (cases "startswith a ''/''")
  case True
  let ?l = "longest_common_prefix (path_components ''//srv'') (path_components a)"
  have abs: "startswith ''//srv'' ''/''" by (simp add: startswith_def)
  with True have c: "commonpath ''//srv'' a = Inr (''/'' @ str_join ''/'' ?l)"
    by (simp add: commonpath_eq)
  have "path_components ''//srv'' = [''srv'']" by code_simp
  then have "str_join ''/'' ?l \<noteq> ''/srv''"
    by (cases "path_components a") (auto split: if_splits)
  with c show ?thesis
    by (simp add: is_within_allowed_root_def)
next
  case False
  then show ?thesis
    by (simp add: is_within_allowed_root_def commonpath_def startswith_def)
qed


text \<open>The validator of the concrete installation is the one \<open>app.py\<close> builds.\<close>

lemma demo_validator_init:
  "PathValidator_init demo_env (Some (expanduser demo_env ''~'')) (50 * 1024 * 1024) 20
     = Inr demo_validator"
  by code_simp

text \<open>
  C1. Containment is a test on components, not on characters. Let the validator have a
  non-empty root and let \<open>a\<close> be the absolute form of a non-empty input \<open>p\<close>. If the
  components of the root are not the first components of \<open>a\<close> (\<open>a\<close> is a strict
  ancestor of the root such as \<open>/\<close> or \<open>/home\<close>, or only shares characters with it as
  \<open>/home/alice-other\<close> does with \<open>/home/alice\<close>), \<open>validate_directory_path\<close> raises
  \<open>PathTraversalError\<close>. If the root is canonical and \<open>a\<close> is the root or a descendant
  of it, component by component, the containment check lets \<open>a\<close> pass.
\<close>

theorem containment_is_component_wise:
  assumes "allowed_root self = Some root" and "root \<noteq> []" and "p \<noteq> []"
    and "cwd_absolute env"
    and "abspath env (expanduser env (sanitize_path_string p)) = Inr a"
  shows "(\<not> component_wise_within root a \<longrightarrow>
            (\<exists>m. validate_directory_path self env (PyStr p) = Inl (PathTraversalError m)))
       \<and> (canonical_absolute root \<and> component_wise_within root a \<longrightarrow>
            outside_allowed_root self a = Inr False)"
proof (intro conjI impI)
  assume "\<not> component_wise_within root a"
  with assms have "is_within_allowed_root self a = Inr False"
    by (intro is_within_allowed_root_False)
  with assms have out: "outside_allowed_root self a = Inr True"
    by (simp add: outside_allowed_root_def root_configured_def)
  show "\<exists>m. validate_directory_path self env (PyStr p) = Inl (PathTraversalError m)"
  proof (cases "check_path_traversal p a")
    case (Inl e)
    then obtain m where "e = PathTraversalError m"
      using check_path_traversal_error by blast
    with Inl assms show ?thesis by (simp add: validate_directory_path_def)
  next
    case (Inr u)
    with out assms show ?thesis by (simp add: validate_directory_path_def)
  qed
next
  assume c: "canonical_absolute root \<and> component_wise_within root a"
  from assms(4,5) have "startswith a ''/''" by (rule abspath_absolute)
  with c assms have "is_within_allowed_root self a = Inr True"
    by (intro is_within_allowed_root_True) auto
  with assms show "outside_allowed_root self a = Inr False"
    by (simp add: outside_allowed_root_def root_configured_def)
qed

theorem containment_is_component_wise_witness:
  "(\<exists>m. validate_directory_path demo_validator demo_env (PyStr ''/home/alice-other'')
          = Inl (PathTraversalError m))
   \<and> (\<exists>m. validate_directory_path demo_validator demo_env (PyStr ''/home'')
          = Inl (PathTraversalError m))
   \<and> outside_allowed_root demo_validator ''/home/alice/scenarios'' = Inr False
   \<and> outside_allowed_root demo_validator ''/home/alice'' = Inr False"
proof -
  have r: "allowed_root demo_validator = Some ''/home/alice''"
    by (simp add: demo_validator_def)
  have c: "cwd_absolute demo_env"
    by (simp add: cwd_absolute_def demo_env_def startswith_def)
  have a1: "abspath demo_env (expanduser demo_env (sanitize_path_string ''/home/alice-other''))
      = Inr ''/home/alice-other''"
    by code_simp
  have a2: "abspath demo_env (expanduser demo_env (sanitize_path_string ''/home''))
      = Inr ''/home''"
    by code_simp
  have a3: "abspath demo_env (expanduser demo_env (sanitize_path_string ''scenarios''))
      = Inr ''/home/alice/scenarios''"
    by code_simp
  have a4: "abspath demo_env (expanduser demo_env (sanitize_path_string ''/home/alice/''))
      = Inr ''/home/alice''"
    by code_simp
  have n1: "\<not> component_wise_within ''/home/alice'' ''/home/alice-other''" by code_simp
  have n2: "\<not> component_wise_within ''/home/alice'' ''/home''" by code_simp
  have y3: "canonical_absolute ''/home/alice''
      \<and> component_wise_within ''/home/alice'' ''/home/alice/scenarios''" by code_simp
  have y4: "component_wise_within ''/home/alice'' ''/home/alice''" by code_simp
  show ?thesis
    using containment_is_component_wise [OF r _ _ c a1]
      containment_is_component_wise [OF r _ _ c a2]
      containment_is_component_wise [OF r _ _ c a3]
      containment_is_component_wise [OF r _ _ c a4] n1 n2 y3 y4
    by simp
qed

text \<open>
  C3. What a successful \<open>validate_directory_path\<close> guarantees when a root is
  configured: the path it returns is absolute, and in the file system of that moment it
  exists, is a directory and is readable; it lies within the root, component by
  component; and the number of its parts is at most the configured maximum.
\<close>

theorem validated_directory_postcondition:
  assumes "validate_directory_path self env user_path = Inr r"
    and "allowed_root self = Some root" and "root \<noteq> []" and "cwd_absolute env"
  shows "startswith r ''/'' \<and> path_exists env r \<and> path_isdir env r \<and> access_R_OK env r
       \<and> component_wise_within root r
       \<and> int (length (path_parts r)) \<le> max_depth self"
proof -
  from validate_directory_path_Inr [OF assms(1)] obtain p where
    p: "abspath env (expanduser env (sanitize_path_string p)) = Inr r"
    and out: "outside_allowed_root self r = Inr False"
    and fs: "path_exists env r" "path_isdir env r" "access_R_OK env r"
    and depth: "int (length (path_parts r)) \<le> max_depth self"
    by blast
  from assms(4) p have "startswith r ''/''" by (rule abspath_absolute)
  moreover from out assms(2,3) have "is_within_allowed_root self r = Inr True"
    by (auto simp: outside_allowed_root_def root_configured_def split: sum.splits)
  then have "component_wise_within root r"
    using assms(2,3) by (rule is_within_allowed_root_TrueD)
  ultimately show ?thesis using fs depth by simp
qed

theorem validated_directory_postcondition_witness:
  "startswith ''/home/alice/scenarios/Minimal'' ''/''
   \<and> path_exists demo_env ''/home/alice/scenarios/Minimal''
   \<and> path_isdir demo_env ''/home/alice/scenarios/Minimal''
   \<and> access_R_OK demo_env ''/home/alice/scenarios/Minimal''
   \<and> component_wise_within ''/home/alice'' ''/home/alice/scenarios/Minimal''
   \<and> int (length (path_parts ''/home/alice/scenarios/Minimal'')) \<le> max_depth demo_validator"
proof -
  have v: "validate_directory_path demo_validator demo_env (PyStr ''scenarios//Minimal/'')
      = Inr ''/home/alice/scenarios/Minimal''"
    by code_simp
  have r: "allowed_root demo_validator = Some ''/home/alice''"
    by (simp add: demo_validator_def)
  have c: "cwd_absolute demo_env"
    by (simp add: cwd_absolute_def demo_env_def startswith_def)
  show ?thesis using validated_directory_postcondition [OF v r _ c] by simp
qed

section \<open>The lexical check\<close>

lemma path_parts_no_dot: "''.'' \<notin> set (path_parts p)"
  by (auto simp: path_parts_def splitroot_def Let_def split: if_splits)

lemma check_parts_no_dangerous:
  "\<forall>x\<in>set ps. x \<notin> DANGEROUS_COMPONENTS \<Longrightarrow> check_parts ps = Inr ()"
  by (induction ps) auto

lemma check_parts_dangerous:
  "\<exists>x\<in>set ps. x \<in> DANGEROUS_COMPONENTS \<Longrightarrow> \<exists>m. check_parts ps = Inl (PathTraversalError m)"
  by (induction ps) auto

lemma split_on_dropWhile:
  "c \<noteq> [] \<Longrightarrow> c \<in> set (split_on sep s) \<Longrightarrow> c \<in> set (split_on sep (dropWhile (\<lambda>x. x = sep) s))"
  by (induction s) (auto split: if_splits)

lemma component_in_path_parts:
  assumes "c \<in> set (split_on CHR ''/'' p)" and "c \<noteq> []" and "c \<noteq> ''.''"
  shows "c \<in> set (path_parts p)"
  using assms split_on_dropWhile [of c "CHR ''/''" p]
  by (auto simp: path_parts_def splitroot_def Let_def)

lemma lexical_check_rejects_components:
  assumes "c \<in> set (split_on CHR ''/'' p)" and "c = ''..'' \<or> c = ''~'' \<or> c = ''$''"
  shows "\<exists>m. check_path_traversal p a = Inl (PathTraversalError m)"
proof (cases "check_patterns dangerous_patterns p")
  case (Inl e)
  then show ?thesis
    by (auto simp: check_path_traversal_def dest: check_patterns_error)
next
  case (Inr u)
  from assms have "c \<in> set (path_parts p)"
    by (intro component_in_path_parts) auto
  moreover from assms(2) have "c \<in> DANGEROUS_COMPONENTS"
    by (auto simp: DANGEROUS_COMPONENTS_def)
  ultimately have "\<exists>m. check_parts (path_parts p) = Inl (PathTraversalError m)"
    by (intro check_parts_dangerous) blast
  with Inr show ?thesis by (simp add: check_path_traversal_def)
qed

lemma lexical_check_rejects_patterns:
  assumes "str_in ''../'' p \<or> str_in (''..'' @ [CHR 0x5C]) p"
  shows "\<exists>m. check_path_traversal p a = Inl (PathTraversalError m)"
  using assms by (auto simp: check_path_traversal_def dangerous_patterns_def)

text \<open>
  The patterns hold a backslash only after the two dots. On POSIX an input that ends in
  a backslash and two dots is one file name, and the check lets it pass.
\<close>

lemma dots_after_backslash_pass_lexical_check:
  "check_path_traversal (''foo'' @ [CHR 0x5C] @ ''..'') a = Inr ()"
  by code_simp

text \<open>
  C2. The lexical check is meant to reject an input with a component that is a single
  dot, as it rejects \<open>..\<close>, \<open>~\<close> and \<open>$\<close>: the dot is a member of
  \<open>DANGEROUS_COMPONENTS\<close>. But \<open>Path(...).parts\<close> never holds a single dot
  (\<open>path_parts_no_dot\<close>), so the inputs \<open>.\<close> and \<open>./scenarios/./Minimal\<close> pass the
  check and are validated.
\<close>

theorem dot_component_passes_lexical_check:
  "check_path_traversal ''.'' ''/home/alice'' = Inr ()
   \<and> validate_directory_path demo_validator demo_env (PyStr ''.'') = Inr ''/home/alice''
   \<and> validate_directory_path demo_validator demo_env (PyStr ''./scenarios/./Minimal'')
       = Inr ''/home/alice/scenarios/Minimal''"
  by code_simp

section \<open>The message of a containment failure\<close>

lemma str_in_prefix: "prefix a s \<Longrightarrow> str_in a s"
  by (cases s) auto

lemma str_in_Cons: "str_in a s \<Longrightarrow> str_in a (c # s)"
  by simp

lemma str_in_append: "str_in a (x @ a @ y)"
  by (induction x) (auto intro: str_in_prefix)

text \<open>
  C4, as the code has it. When the containment check fails, the message of the
  \<open>PathTraversalError\<close> holds the resolved absolute path (and, for a directory, the
  root). \<open>create_error_response\<close> copies that message into the field \<open>message\<close> of
  the response; only the field \<open>user_message\<close>, a fixed text, is free of the path.
\<close>

theorem containment_failure_message:
  assumes "p \<noteq> []"
    and "abspath env (expanduser env (sanitize_path_string p)) = Inr a"
    and "check_path_traversal p a = Inr ()"
    and "allowed_root self = Some root"
    and "outside_allowed_root self a = Inr True"
  shows "(\<exists>e. validate_directory_path self env (PyStr p) = Inl e
            \<and> e = PathTraversalError (''Path outside allowed directory: '' @ a @ '' not within '' @ root)
            \<and> str_in a (err_str e)
            \<and> str_in a (message (create_error_response e))
            \<and> user_message (create_error_response e) = ''An unexpected error occurred'')
       \<and> (\<exists>e. validate_file_path self env (PyStr p) must_exist = Inl e
            \<and> e = PathTraversalError (''File path outside allowed directory: '' @ a)
            \<and> str_in a (err_str e)
            \<and> str_in a (message (create_error_response e))
            \<and> user_message (create_error_response e) = ''An unexpected error occurred'')"
proof -
  have d: "validate_directory_path self env (PyStr p)
      = Inl (PathTraversalError (''Path outside allowed directory: '' @ a @ '' not within '' @ root))"
    using assms by (simp add: validate_directory_path_def)
  have f: "validate_file_path self env (PyStr p) must_exist
      = Inl (PathTraversalError (''File path outside allowed directory: '' @ a))"
    using assms by (simp add: validate_file_path_def)
  have "str_in a (''Path outside allowed directory: '' @ a @ '' not within '' @ root)"
    by (rule str_in_append)
  moreover have "str_in a (''File path outside allowed directory: '' @ a @ [])"
    by (rule str_in_append)
  ultimately show ?thesis using d f by simp
qed

theorem containment_failure_message_witness:
  "(\<exists>e. validate_directory_path demo_validator demo_env (PyStr ''/etc'') = Inl e
            \<and> e = PathTraversalError (''Path outside allowed directory: '' @ ''/etc'' @ '' not within '' @ ''/home/alice'')
            \<and> str_in ''/etc'' (err_str e)
            \<and> str_in ''/etc'' (message (create_error_response e))
            \<and> user_message (create_error_response e) = ''An unexpected error occurred'')
       \<and> (\<exists>e. validate_file_path demo_validator demo_env (PyStr ''/etc'') False = Inl e
            \<and> e = PathTraversalError (''File path outside allowed directory: '' @ ''/etc'')
            \<and> str_in ''/etc'' (err_str e)
            \<and> str_in ''/etc'' (message (create_error_response e))
            \<and> user_message (create_error_response e) = ''An unexpected error occurred'')"
proof -
  have a: "abspath demo_env (expanduser demo_env (sanitize_path_string ''/etc'')) = Inr ''/etc''"
    by code_simp
  have c: "check_path_traversal ''/etc'' ''/etc'' = Inr ()" by code_simp
  have r: "allowed_root demo_validator = Some ''/home/alice''"
    by (simp add: demo_validator_def)
  have out: "outside_allowed_root demo_validator ''/etc'' = Inr True" by code_simp
  show ?thesis by (rule containment_failure_message [OF _ a c r out]) simp
qed

text \<open>
  C4, as the claim states it, fails: \<open>/etc\<close> and \<open>/etc/passwd\<close> lie outside the root
  \<open>/home/alice\<close>, and the messages of the two errors spell them out.
\<close>

theorem containment_failure_discloses_path:
  "validate_directory_path demo_validator demo_env (PyStr ''/etc'')
     = Inl (PathTraversalError ''Path outside allowed directory: /etc not within /home/alice'')
   \<and> validate_file_path demo_validator demo_env (PyStr ''/etc/passwd'') True
     = Inl (PathTraversalError ''File path outside allowed directory: /etc/passwd'')
   \<and> \<not> component_wise_within ''/home/alice'' ''/etc''
   \<and> \<not> component_wise_within ''/home/alice'' ''/etc/passwd''
   \<and> str_in ''/etc'' ''Path outside allowed directory: /etc not within /home/alice''
   \<and> str_in ''/etc/passwd'' ''File path outside allowed directory: /etc/passwd''"
  by code_simp

section \<open>The extension denylist\<close>







section \<open>The scenario detector\<close>
















section \<open>Loading a scenario\<close>

lemma load_file_entry_yaml:
  "endswith file_path ''.yaml'' \<Longrightarrow>
   load_file_entry env full_path file_path = YamlEntry file_path (load_yaml_file env full_path)"
  by (simp add: load_file_entry_def)

lemma config_files_yaml: "\<forall>(file_path, file_name)\<in>set config_files. endswith file_path ''.yaml''"
  by (simp add: config_files_def endswith_def)

lemma load_config_files_entries:
  assumes "\<forall>(file_path, file_name)\<in>set cfs. endswith file_path ''.yaml''"
    and "\<forall>k e. loaded k = Some e \<longrightarrow> (\<exists>fp c. e = YamlEntry fp c)"
    and "load_config_files env d cfs loaded k = Some e"
  shows "\<exists>fp c. e = YamlEntry fp c"
  using assms
proof (induction cfs arbitrary: loaded)
  case Nil
  then show ?case by simp
next
  case (Cons x cfs)
  obtain fp fn where x: "x = (fp, fn)" by (cases x)
  show ?case
  proof (cases "path_exists env (path_join d fp)")
    case True
    let ?l = "loaded(fn \<mapsto> load_file_entry env (path_join d fp) fp)"
    from Cons.prems(1) x have y: "endswith fp ''.yaml''" by simp
    have "\<forall>k e. ?l k = Some e \<longrightarrow> (\<exists>fp c. e = YamlEntry fp c)"
      using Cons.prems(2) y by (auto simp: load_file_entry_yaml)
    moreover from Cons.prems(3) x True have "load_config_files env d cfs ?l k = Some e"
      by (simp add: Let_def)
    moreover from Cons.prems(1) have "\<forall>(file_path, file_name)\<in>set cfs. endswith file_path ''.yaml''"
      by simp
    ultimately show ?thesis by (rule Cons.IH [rotated])
  next
    case False
    with Cons.prems(3) x have "load_config_files env d cfs loaded k = Some e"
      by (simp add: Let_def)
    with Cons.prems(1,2) show ?thesis
      by (intro Cons.IH [of loaded]) auto
  qed
qed

lemma load_scenario_no_error_entry:
  assumes "load_scenario self env d = Inr doc" and "files doc k = Some e"
  shows "\<exists>fp c. e = YamlEntry fp c"
proof -
  from assms have "load_config_files env d config_files Map.empty k = Some e"
    by (auto simp: load_scenario_def split: sum.splits if_splits)
  with config_files_yaml show ?thesis
    by (intro load_config_files_entries [of config_files Map.empty env d k e]) auto
qed

text \<open>Loading a valid scenario succeeds, whatever its files hold.\<close>

lemma load_scenario_succeeds:
  assumes "is_valid_scenario self env (PyStr d) = Inr True"
  shows "\<exists>doc. load_scenario self env d = Inr doc"
  using assms by (simp add: load_scenario_def get_scenario_preview_def Let_def)

text \<open>
  C7. \<open>load_scenario\<close> is meant to record a file that cannot be parsed as an entry of
  type \<open>error\<close>. In the directory \<open>Default\<close> the file \<open>SolarSystemConfig.yaml\<close> is
  not YAML and \<open>yaml.safe_load\<close> raises; the load succeeds, and the entry is one of
  type \<open>yaml\<close> with the content \<open>None\<close>: \<open>_load_yaml_file\<close> has swallowed the
  exception, and no entry of a loaded scenario is ever an error entry
  (\<open>load_scenario_no_error_entry\<close>).
\<close>

theorem corrupted_yaml_is_not_an_error_entry:
  "safe_load_file demo_env ''/home/alice/scenarios/Default/SolarSystemConfig.yaml''
     = Inl (YAMLError ''while parsing a flow sequence: expected , or ]'')
   \<and> (case load_scenario demo_loader demo_env ''/home/alice/scenarios/Default'' of
        Inl e \<Rightarrow> None
      | Inr doc \<Rightarrow> files doc ''Solar System Config'')
     = Some (YamlEntry ''SolarSystemConfig.yaml'' YNull)"
  by code_simp

section \<open>The preview\<close>












section \<open>The game-mode label\<close>









end
